theory Spec2Isabelle
  imports Main "HOL-Library.Char_ord" "HOL-Library.List_Lexorder" "HOL-Library.Multiset"
begin

section \<open>The to-do list data-access layer (backend/src/dal.py)\<close>

text \<open>
  The module holds three pydantic view models (\<^verbatim>\<open>ListSummary\<close>, \<^verbatim>\<open>ToDoListItem\<close>,
  \<^verbatim>\<open>ToDoList\<close>), each with a static decoder \<^verbatim>\<open>from_doc\<close>, and the class \<^verbatim>\<open>ToDoDAL\<close>
  whose methods are each written around one request to a MongoDB collection.

  The libraries the module imports (bson, motor, pymongo, pydantic, uuid) are not part of
  the repository. What the methods use of them is modelled below, each in a subsection of
  its own; the view models, the decoders and the methods are translated from the module
  line by line. Exceptions are values: every function that can raise returns
  \<open>error + 'a\<close>, with \<open>Inl\<close> the exception.

  Two names stand outside the function bodies: the module imports bson's object id class
  as \<^verbatim>\<open>ObjectID\<close> and annotates the constructor with \<^verbatim>\<open>AsyncIOMotorCollection\<close>;
  they are read as bson's \<^verbatim>\<open>ObjectId\<close> and motor's collection class. Inside the bodies
  the model follows the module as written: the constructor stores the collection in the
  attribute \<^verbatim>\<open>_todo_collection\<close>, every method reads the attribute
  \<^verbatim>\<open>todo_collection\<close>, and the three item methods call \<^verbatim>\<open>find_one_and_update_one\<close>,
  a method that motor's collection does not have.
\<close>

subsection \<open>Exceptions\<close>

text \<open>
  \<open>AttributeError\<close>: an object has no attribute of the name read. \<open>KeyError k\<close>: a dict
  has no key \<open>k\<close>. \<open>TypeError\<close>: a value is subscripted, iterated or called that does
  not support it. \<open>InvalidId\<close>: \<^verbatim>\<open>bson.errors.InvalidId\<close>. \<open>ValidationError\<close>: pydantic
  rejects a field value. \<open>DuplicateKeyError\<close>: the store refuses an insert.
\<close>

datatype error =
    AttributeError
  | KeyError string
  | TypeError
  | InvalidId
  | ValidationError
  | DuplicateKeyError

subsection \<open>Store identifiers (bson)\<close>

text \<open>
  An object id is a byte string. The module builds one with \<^verbatim>\<open>ObjectID(id)\<close> from an
  argument annotated \<^verbatim>\<open>str | ObjectID\<close> (the name the module imports from bson): an
  object id is copied, a string must have 24 characters and be accepted by
  \<^verbatim>\<open>bytes.fromhex\<close>, anything else raises \<^verbatim>\<open>InvalidId\<close>. \<^verbatim>\<open>str\<close> of an object id is
  its lower-case hexadecimal form.
\<close>

datatype ObjectId = Oid (binary: "nat list")

datatype id_arg = IdStr string | IdOid ObjectId

definition hexval :: "char \<Rightarrow> nat option" where
  "hexval c =
     (if c \<in> set ''0123456789'' then Some (of_char c - 48)
      else if c \<in> set ''abcdef'' then Some (of_char c - 87)
      else if c \<in> set ''ABCDEF'' then Some (of_char c - 55)
      else None)"

definition is_space :: "char \<Rightarrow> bool" where
  "is_space c = (of_char c \<in> {9, 10, 11, 12, 13, 32 :: nat})"

text \<open>
  \<^verbatim>\<open>bytes.fromhex\<close>: white space is skipped before each byte; a byte is two adjacent
  hexadecimal digits; anything else raises (here \<open>None\<close>).
\<close>

fun fromhex :: "string \<Rightarrow> nat list option" where
  "fromhex [] = Some []"
| "fromhex [c] = (if is_space c then Some [] else None)"
| "fromhex (c # d # cs) =
     (if is_space c then fromhex (d # cs)
      else (case (hexval c, hexval d) of
              (Some hi, Some lo) \<Rightarrow> map_option ((#) (16 * hi + lo)) (fromhex cs)
            | _ \<Rightarrow> None))"

definition ObjectID :: "id_arg \<Rightarrow> error + ObjectId" where
  "ObjectID a =
     (case a of
        IdOid oid \<Rightarrow> Inr oid
      | IdStr s \<Rightarrow>
          (if length s = 24
           then (case fromhex s of None \<Rightarrow> Inl InvalidId | Some bs \<Rightarrow> Inr (Oid bs))
           else Inl InvalidId))"

definition hexdigit :: "nat \<Rightarrow> char" where
  "hexdigit n = ''0123456789abcdef'' ! (n mod 16)"

definition hexlify :: "ObjectId \<Rightarrow> string" where
  "hexlify oid = concat (map (\<lambda>b. [hexdigit (b div 16), hexdigit b]) (binary oid))"

subsection \<open>Documents as the driver hands them over\<close>

text \<open>
  A document is a Python dict of decoded BSON values; \<open>BNull\<close> is Python's \<^verbatim>\<open>None\<close>,
  which is also what \<^verbatim>\<open>find_one\<close> returns when nothing matches.
\<close>

datatype bson =
    BNull
  | BBool bool
  | BInt int
  | BStr string
  | BOid ObjectId
  | BArr "bson list"
  | BDoc "(string \<times> bson) list"

text \<open>\<^verbatim>\<open>v[k]\<close> with a string key \<open>k\<close>.\<close>

fun subscript :: "bson \<Rightarrow> string \<Rightarrow> error + bson" where
  "subscript (BDoc kvs) k = (case map_of kvs k of None \<Rightarrow> Inl (KeyError k) | Some v \<Rightarrow> Inr v)"
| "subscript v k = Inl TypeError"

text \<open>
  \<^verbatim>\<open>for item in v\<close>: a list yields its elements, a dict its keys, a string its
  characters; the other values are not iterable.
\<close>

fun py_iter :: "bson \<Rightarrow> error + bson list" where
  "py_iter (BArr xs) = Inr xs"
| "py_iter (BDoc kvs) = Inr (map (\<lambda>kv. BStr (fst kv)) kvs)"
| "py_iter (BStr s) = Inr (map (\<lambda>c. BStr [c]) s)"
| "py_iter v = Inl TypeError"

text \<open>
  What the model leaves to the runtime: \<^verbatim>\<open>str(v)\<close> of a value that is neither an
  object id nor a string, and the values of another type that pydantic converts to a
  field's type instead of rejecting them. Every function below takes the runtime as its
  first argument, and every theorem holds for all of them.
\<close>

record runtime =
  str_other :: "bson \<Rightarrow> string"
  lax_str :: "bson \<Rightarrow> string option"
  lax_bool :: "bson \<Rightarrow> bool option"
  lax_int :: "bson \<Rightarrow> int option"

fun py_str :: "runtime \<Rightarrow> bson \<Rightarrow> string" where
  "py_str R (BOid oid) = hexlify oid"
| "py_str R (BStr s) = s"
| "py_str R v = str_other R v"

subsection \<open>Field validation (pydantic)\<close>

text \<open>
  A value of the field's own type is accepted as it is; a value of another type is
  converted or rejected as the runtime decides.
\<close>

fun validate_str :: "runtime \<Rightarrow> bson \<Rightarrow> string option" where
  "validate_str R (BStr s) = Some s"
| "validate_str R v = lax_str R v"

fun validate_bool :: "runtime \<Rightarrow> bson \<Rightarrow> bool option" where
  "validate_bool R (BBool b) = Some b"
| "validate_bool R v = lax_bool R v"

fun validate_int :: "runtime \<Rightarrow> bson \<Rightarrow> int option" where
  "validate_int R (BInt n) = Some n"
| "validate_int R v = lax_int R v"

subsection \<open>View models and their decoders\<close>

record ListSummary =
  ls_id :: string
  ls_name :: string
  ls_item_count :: int

record ToDoListItem =
  it_id :: string
  it_label :: string
  it_is_checked :: bool

record ToDoList =
  tl_id :: string
  tl_name :: string
  tl_items :: "ToDoListItem list"

text \<open>
  The constructors of the three models: pydantic validates every field and raises one
  \<^verbatim>\<open>ValidationError\<close> if any is rejected. The \<^verbatim>\<open>id\<close> argument is always the result of
  \<^verbatim>\<open>str(...)\<close>, a string; the items of a \<^verbatim>\<open>ToDoList\<close> are already model instances.
\<close>

definition ListSummary_init :: "runtime \<Rightarrow> string \<Rightarrow> bson \<Rightarrow> bson \<Rightarrow> error + ListSummary" where
  "ListSummary_init R i n c =
     (case validate_str R n of
        None \<Rightarrow> Inl ValidationError
      | Some n' \<Rightarrow>
          (case validate_int R c of
             None \<Rightarrow> Inl ValidationError
           | Some c' \<Rightarrow> Inr \<lparr>ls_id = i, ls_name = n', ls_item_count = c'\<rparr>))"

definition ToDoListItem_init :: "runtime \<Rightarrow> string \<Rightarrow> bson \<Rightarrow> bson \<Rightarrow> error + ToDoListItem" where
  "ToDoListItem_init R i l c =
     (case validate_str R l of
        None \<Rightarrow> Inl ValidationError
      | Some l' \<Rightarrow>
          (case validate_bool R c of
             None \<Rightarrow> Inl ValidationError
           | Some c' \<Rightarrow> Inr \<lparr>it_id = i, it_label = l', it_is_checked = c'\<rparr>))"

definition ToDoList_init :: "runtime \<Rightarrow> string \<Rightarrow> bson \<Rightarrow> ToDoListItem list \<Rightarrow> error + ToDoList" where
  "ToDoList_init R i n its =
     (case validate_str R n of
        None \<Rightarrow> Inl ValidationError
      | Some n' \<Rightarrow> Inr \<lparr>tl_id = i, tl_name = n', tl_items = its\<rparr>)"

text \<open>
  \<^verbatim>\<open>ListSummary.from_doc\<close>: the keyword arguments are evaluated in the order written,
  so the first missing key is the one reported.
\<close>

definition ListSummary_from_doc :: "runtime \<Rightarrow> bson \<Rightarrow> error + ListSummary" where
  "ListSummary_from_doc R doc =
     (case subscript doc ''_id'' of
        Inl e \<Rightarrow> Inl e
      | Inr i \<Rightarrow>
          (case subscript doc ''name'' of
             Inl e \<Rightarrow> Inl e
           | Inr n \<Rightarrow>
               (case subscript doc ''item_count'' of
                  Inl e \<Rightarrow> Inl e
                | Inr c \<Rightarrow> ListSummary_init R (py_str R i) n c)))"

text \<open>\<^verbatim>\<open>ToDoListItem.from_doc\<close>: reads the keys \<^verbatim>\<open>_id\<close>, \<^verbatim>\<open>label\<close>, \<^verbatim>\<open>is_checked\<close>.\<close>

definition ToDoListItem_from_doc :: "runtime \<Rightarrow> bson \<Rightarrow> error + ToDoListItem" where
  "ToDoListItem_from_doc R item =
     (case subscript item ''_id'' of
        Inl e \<Rightarrow> Inl e
      | Inr i \<Rightarrow>
          (case subscript item ''label'' of
             Inl e \<Rightarrow> Inl e
           | Inr l \<Rightarrow>
               (case subscript item ''is_checked'' of
                  Inl e \<Rightarrow> Inl e
                | Inr c \<Rightarrow> ToDoListItem_init R (py_str R i) l c)))"

text \<open>
  The list comprehension \<^verbatim>\<open>[f(item) for item in xs]\<close>: elements are decoded in order
  and the first exception ends the comprehension.
\<close>

fun comprehension :: "('a \<Rightarrow> error + 'b) \<Rightarrow> 'a list \<Rightarrow> error + 'b list" where
  "comprehension f [] = Inr []"
| "comprehension f (x # xs) =
     (case f x of
        Inl e \<Rightarrow> Inl e
      | Inr y \<Rightarrow> (case comprehension f xs of Inl e \<Rightarrow> Inl e | Inr ys \<Rightarrow> Inr (y # ys)))"

text \<open>\<^verbatim>\<open>ToDoList.from_doc\<close>.\<close>

definition ToDoList_from_doc :: "runtime \<Rightarrow> bson \<Rightarrow> error + ToDoList" where
  "ToDoList_from_doc R doc =
     (case subscript doc ''_id'' of
        Inl e \<Rightarrow> Inl e
      | Inr i \<Rightarrow>
          (case subscript doc ''name'' of
             Inl e \<Rightarrow> Inl e
           | Inr n \<Rightarrow>
               (case subscript doc ''items'' of
                  Inl e \<Rightarrow> Inl e
                | Inr v \<Rightarrow>
                    (case py_iter v of
                       Inl e \<Rightarrow> Inl e
                     | Inr xs \<Rightarrow>
                         (case comprehension (ToDoListItem_from_doc R) xs of
                            Inl e \<Rightarrow> Inl e
                          | Inr its \<Rightarrow> ToDoList_init R (py_str R i) n its)))))"

subsection \<open>The collection (motor, pymongo)\<close>

text \<open>
  The collection holds list documents of the persisted schema,
  \<^verbatim>\<open>{_id, name: string, items: [{id: string, label: string, is_checked: bool}]}\<close>.
  The model of the store is a list of such documents in store order, together with the
  log of the requests it has received, so that "no request was sent" can be stated. The
  optional \<^verbatim>\<open>session\<close> argument is handed to the store untouched and is left out.
\<close>

record ItemDoc =
  d_id :: string
  d_label :: string
  d_is_checked :: bool

record ListDoc =
  d__id :: ObjectId
  d_name :: string
  d_items :: "ItemDoc list"

datatype request =
    Find
  | InsertOne
  | FindOne ObjectId
  | DeleteOne ObjectId

record collection =
  docs :: "ListDoc list"
  requests :: "request list"

definition unique_ids :: "collection \<Rightarrow> bool" where
  "unique_ids C = distinct (map d__id (docs C))"

text \<open>The Python values the driver returns for stored documents.\<close>

definition item_to_bson :: "ItemDoc \<Rightarrow> bson" where
  "item_to_bson i =
     BDoc [(''id'', BStr (d_id i)), (''label'', BStr (d_label i)),
           (''is_checked'', BBool (d_is_checked i))]"

definition list_to_bson :: "ListDoc \<Rightarrow> bson" where
  "list_to_bson d =
     BDoc [(''_id'', BOid (d__id d)), (''name'', BStr (d_name d)),
           (''items'', BArr (map item_to_bson (d_items d)))]"

definition to_python :: "ListDoc option \<Rightarrow> bson" where
  "to_python r = (case r of None \<Rightarrow> BNull | Some d \<Rightarrow> list_to_bson d)"

text \<open>Python's truth value of a returned value (\<^verbatim>\<open>if res:\<close>).\<close>

fun truthy :: "bson \<Rightarrow> bool" where
  "truthy BNull = False"
| "truthy (BBool b) = b"
| "truthy (BInt n) = (n \<noteq> 0)"
| "truthy (BStr s) = (s \<noteq> [])"
| "truthy (BOid oid) = True"
| "truthy (BArr xs) = (xs \<noteq> [])"
| "truthy (BDoc kvs) = (kvs \<noteq> [])"

text \<open>
  \<^verbatim>\<open>find({}, projection={"name": 1, "item_count": {"$size": "$items"}}, sort={"name": 1})\<close>:
  every document, projected to \<^verbatim>\<open>_id\<close>, \<^verbatim>\<open>name\<close> and the size of \<^verbatim>\<open>items\<close>, by
  ascending name (strings compare byte by byte; documents of equal name stay in store
  order).
\<close>

definition projected :: "ListDoc \<Rightarrow> bson" where
  "projected d =
     BDoc [(''_id'', BOid (d__id d)), (''name'', BStr (d_name d)),
           (''item_count'', BInt (int (length (d_items d))))]"

definition find_projected :: "collection \<Rightarrow> bson list \<times> collection" where
  "find_projected C =
     (map projected (sort_key d_name (docs C)), C\<lparr>requests := requests C @ [Find]\<rparr>)"

text \<open>
  \<^verbatim>\<open>insert_one({"name": name, "items": []})\<close>: the driver draws the new \<^verbatim>\<open>_id\<close>
  (the argument \<open>new_id\<close>); the store refuses an \<^verbatim>\<open>_id\<close> it already holds.
\<close>

definition insert_one ::
  "collection \<Rightarrow> ObjectId \<Rightarrow> string \<Rightarrow> (error + ObjectId) \<times> collection" where
  "insert_one C new_id name =
     (if new_id \<in> set (map d__id (docs C))
      then (Inl DuplicateKeyError, C\<lparr>requests := requests C @ [InsertOne]\<rparr>)
      else (Inr new_id,
            C\<lparr>docs := docs C @ [\<lparr>d__id = new_id, d_name = name, d_items = []\<rparr>],
              requests := requests C @ [InsertOne]\<rparr>))"

text \<open>\<^verbatim>\<open>find_one({"_id": oid})\<close>: the first document with that \<^verbatim>\<open>_id\<close>, or \<^verbatim>\<open>None\<close>.\<close>

definition find_one :: "collection \<Rightarrow> ObjectId \<Rightarrow> bson \<times> collection" where
  "find_one C oid =
     (to_python (find (\<lambda>d. d__id d = oid) (docs C)),
      C\<lparr>requests := requests C @ [FindOne oid]\<rparr>)"

text \<open>
  \<^verbatim>\<open>delete_one({"_id": oid})\<close>: removes the first document with that \<^verbatim>\<open>_id\<close>; the
  response carries \<^verbatim>\<open>deleted_count\<close>.
\<close>

fun remove_first :: "('a \<Rightarrow> bool) \<Rightarrow> 'a list \<Rightarrow> 'a list" where
  "remove_first p [] = []"
| "remove_first p (d # ds) = (if p d then ds else d # remove_first p ds)"

definition delete_one :: "collection \<Rightarrow> ObjectId \<Rightarrow> nat \<times> collection" where
  "delete_one C oid =
     ((if list_ex (\<lambda>d. d__id d = oid) (docs C) then 1 else 0),
      C\<lparr>docs := remove_first (\<lambda>d. d__id d = oid) (docs C),
        requests := requests C @ [DeleteOne oid]\<rparr>)"

text \<open>
  \<^verbatim>\<open>find_one_and_update_one(filter, update, ...)\<close>: motor's collection has no method of
  this name (its method is \<^verbatim>\<open>find_one_and_update\<close>). Reading the attribute gives the
  sub-collection of that name, and calling a collection raises \<^verbatim>\<open>TypeError\<close>; no request
  is sent, so the filter and the update (\<^verbatim>\<open>$push\<close>, \<^verbatim>\<open>$set\<close>, \<^verbatim>\<open>$pull\<close>) that the three
  item methods pass never reach the store.
\<close>

definition find_one_and_update_one :: "collection \<Rightarrow> (error + bson) \<times> collection" where
  "find_one_and_update_one C = (Inl TypeError, C)"

subsection \<open>The methods of ToDoDAL\<close>

text \<open>
  An instance is its attribute dictionary. The constructor takes the collection handle
  and stores it under the name \<^verbatim>\<open>_todo_collection\<close>. The class defines no attribute but
  its methods and no \<^verbatim>\<open>__getattr__\<close>, so reading an attribute of \<^verbatim>\<open>self\<close> looks the name up
  in that dictionary and raises \<^verbatim>\<open>AttributeError\<close> when it is not there.
\<close>

datatype handle = MotorCollection

type_synonym ToDoDAL = "(string \<times> handle) list"

definition ToDoDAL_init :: "handle \<Rightarrow> ToDoDAL" where
  "ToDoDAL_init todo_collection = [(''_todo_collection'', todo_collection)]"

definition getattr :: "ToDoDAL \<Rightarrow> string \<Rightarrow> error + handle" where
  "getattr self name =
     (case map_of self name of None \<Rightarrow> Inl AttributeError | Some v \<Rightarrow> Inr v)"

text \<open>
  Each method takes \<^verbatim>\<open>self\<close> and the collection, and returns its result with the
  collection after the call. Python evaluates the callee before the arguments: in
  \<^verbatim>\<open>self.todo_collection.find_one({"_id": ObjectID(id)})\<close> the attribute is read first,
  then \<^verbatim>\<open>ObjectID(id)\<close> is built, then the request is sent.
\<close>

text \<open>
  An async generator: the values yielded before the first exception, and the exception
  that ended it, if any.
\<close>

fun generate :: "('a \<Rightarrow> error + 'b) \<Rightarrow> 'a list \<Rightarrow> 'b list \<times> error option" where
  "generate f [] = ([], None)"
| "generate f (x # xs) =
     (case f x of
        Inl e \<Rightarrow> ([], Some e)
      | Inr y \<Rightarrow> (case generate f xs of (ys, r) \<Rightarrow> (y # ys, r)))"

definition list_todo_lists ::
  "runtime \<Rightarrow> ToDoDAL \<Rightarrow> collection \<Rightarrow> (ListSummary list \<times> error option) \<times> collection" where
  "list_todo_lists R self C =
     (case getattr self ''todo_collection'' of
        Inl e \<Rightarrow> (([], Some e), C)
      | Inr coll \<Rightarrow>
          (case find_projected C of (ds, C') \<Rightarrow> (generate (ListSummary_from_doc R) ds, C')))"

definition create_todo_list ::
  "runtime \<Rightarrow> ToDoDAL \<Rightarrow> collection \<Rightarrow> ObjectId \<Rightarrow> string \<Rightarrow> (error + string) \<times> collection" where
  "create_todo_list R self C new_id name =
     (case getattr self ''todo_collection'' of
        Inl e \<Rightarrow> (Inl e, C)
      | Inr coll \<Rightarrow>
          (case insert_one C new_id name of
             (Inl e, C') \<Rightarrow> (Inl e, C')
           | (Inr inserted_id, C') \<Rightarrow> (Inr (py_str R (BOid inserted_id)), C')))"

definition get_todo_list ::
  "runtime \<Rightarrow> ToDoDAL \<Rightarrow> collection \<Rightarrow> id_arg \<Rightarrow> (error + ToDoList) \<times> collection" where
  "get_todo_list R self C a =
     (case getattr self ''todo_collection'' of
        Inl e \<Rightarrow> (Inl e, C)
      | Inr coll \<Rightarrow>
          (case ObjectID a of
             Inl e \<Rightarrow> (Inl e, C)
           | Inr oid \<Rightarrow> (case find_one C oid of (doc, C') \<Rightarrow> (ToDoList_from_doc R doc, C'))))"

definition delete_todo_list ::
  "ToDoDAL \<Rightarrow> collection \<Rightarrow> id_arg \<Rightarrow> (error + bool) \<times> collection" where
  "delete_todo_list self C a =
     (case getattr self ''todo_collection'' of
        Inl e \<Rightarrow> (Inl e, C)
      | Inr coll \<Rightarrow>
          (case ObjectID a of
             Inl e \<Rightarrow> (Inl e, C)
           | Inr oid \<Rightarrow>
               (case delete_one C oid of
                  (deleted_count, C') \<Rightarrow> (Inr (deleted_count = 1), C'))))"

text \<open>
  The three item methods end alike: \<^verbatim>\<open>if res: return ToDoList.from_doc(res)\<close>, and
  \<^verbatim>\<open>None\<close> is returned otherwise.
\<close>

definition decode_if :: "runtime \<Rightarrow> bson \<Rightarrow> error + ToDoList option" where
  "decode_if R res =
     (if truthy res
      then (case ToDoList_from_doc R res of Inl e \<Rightarrow> Inl e | Inr l \<Rightarrow> Inr (Some l))
      else Inr None)"

text \<open>
  \<^verbatim>\<open>create_item\<close>, \<^verbatim>\<open>set_checked_state\<close>, \<^verbatim>\<open>delete_item\<close>: the attribute is read, the
  object id is built (and, in \<^verbatim>\<open>create_item\<close>, \<^verbatim>\<open>uuid4().hex\<close> is drawn), then
  \<^verbatim>\<open>find_one_and_update_one\<close> is called with the filter and the update.
\<close>

definition create_item ::
  "runtime \<Rightarrow> ToDoDAL \<Rightarrow> collection \<Rightarrow> id_arg \<Rightarrow> string \<Rightarrow> string \<Rightarrow>
     (error + ToDoList option) \<times> collection" where
  "create_item R self C a label uid =
     (case getattr self ''todo_collection'' of
        Inl e \<Rightarrow> (Inl e, C)
      | Inr coll \<Rightarrow>
          (case ObjectID a of
             Inl e \<Rightarrow> (Inl e, C)
           | Inr oid \<Rightarrow>
               (case find_one_and_update_one C of
                  (Inl e, C') \<Rightarrow> (Inl e, C')
                | (Inr res, C') \<Rightarrow> (decode_if R res, C'))))"

definition set_checked_state ::
  "runtime \<Rightarrow> ToDoDAL \<Rightarrow> collection \<Rightarrow> id_arg \<Rightarrow> string \<Rightarrow> bool \<Rightarrow>
     (error + ToDoList option) \<times> collection" where
  "set_checked_state R self C doc_id item_id is_checked =
     (case getattr self ''todo_collection'' of
        Inl e \<Rightarrow> (Inl e, C)
      | Inr coll \<Rightarrow>
          (case ObjectID doc_id of
             Inl e \<Rightarrow> (Inl e, C)
           | Inr oid \<Rightarrow>
               (case find_one_and_update_one C of
                  (Inl e, C') \<Rightarrow> (Inl e, C')
                | (Inr res, C') \<Rightarrow> (decode_if R res, C'))))"

definition delete_item ::
  "runtime \<Rightarrow> ToDoDAL \<Rightarrow> collection \<Rightarrow> id_arg \<Rightarrow> string \<Rightarrow>
     (error + ToDoList option) \<times> collection" where
  "delete_item R self C doc_id item_id =
     (case getattr self ''todo_collection'' of
        Inl e \<Rightarrow> (Inl e, C)
      | Inr coll \<Rightarrow>
          (case ObjectID doc_id of
             Inl e \<Rightarrow> (Inl e, C)
           | Inr oid \<Rightarrow>
               (case find_one_and_update_one C of
                  (Inl e, C') \<Rightarrow> (Inl e, C')
                | (Inr res, C') \<Rightarrow> (decode_if R res, C'))))"

subsection \<open>What the specification expects, and example values\<close>

text \<open>The summary the specification describes for a stored list: identity, name, item count.\<close>

definition summary_of :: "ListDoc \<Rightarrow> ListSummary" where
  "summary_of d =
     \<lparr>ls_id = hexlify (d__id d), ls_name = d_name d, ls_item_count = int (length (d_items d))\<rparr>"

text \<open>A runtime that converts nothing, for the examples.\<close>

definition no_lax :: runtime where
  "no_lax =
     \<lparr>str_other = (\<lambda>v. []), lax_str = (\<lambda>v. None), lax_bool = (\<lambda>v. None),
      lax_int = (\<lambda>v. None)\<rparr>"

text \<open>
  Example values: \<open>list_id\<close> is a well-formed identifier as callers write it and
  \<open>list_oid\<close> the object id it decodes to. \<open>dal\<close> is the instance the constructor
  builds; \<open>patched\<close> is that instance after \<^verbatim>\<open>dal.todo_collection = coll\<close>, which the
  module never does.
\<close>

definition list_id :: string where
  "list_id = ''65f0a1b2c3d4e5f601234567''"

definition list_oid :: ObjectId where
  "list_oid = Oid [101, 240, 161, 178, 195, 212, 229, 246, 1, 35, 69, 103]"

definition dal :: ToDoDAL where
  "dal = ToDoDAL_init MotorCollection"

definition patched :: ToDoDAL where
  "patched = (''todo_collection'', MotorCollection) # dal"

section \<open>Properties\<close>

subsection \<open>Identifiers\<close>

lemma ObjectID_error: "ObjectID a = Inl e \<Longrightarrow> e = InvalidId"
  by (auto simp: ObjectID_def split: id_arg.splits if_splits option.splits)

lemma ObjectID_list_id: "ObjectID (IdStr list_id) = Inr list_oid"
  by (simp add: ObjectID_def list_id_def list_oid_def hexval_def is_space_def)

lemma ObjectID_too_short: "ObjectID (IdStr ''groceries'') = Inl InvalidId"
  by (simp add: ObjectID_def)

subsection \<open>Decoding stored documents\<close>

text \<open>
  A stored item carries its identity under the key \<^verbatim>\<open>id\<close>; the item decoder asks for
  \<^verbatim>\<open>_id\<close>. So no stored item decodes, and a stored list decodes exactly when it has no
  items.
\<close>

lemma item_from_stored: "ToDoListItem_from_doc R (item_to_bson i) = Inl (KeyError ''_id'')"
  by (simp add: ToDoListItem_from_doc_def item_to_bson_def)

lemma comprehension_stored:
  "comprehension (ToDoListItem_from_doc R) (map item_to_bson xs) =
     (if xs = [] then Inr [] else Inl (KeyError ''_id''))"
  by (cases xs) (simp_all add: item_from_stored)

lemma list_from_stored:
  "ToDoList_from_doc R (list_to_bson d) =
     (if d_items d = []
      then Inr \<lparr>tl_id = hexlify (d__id d), tl_name = d_name d, tl_items = []\<rparr>
      else Inl (KeyError ''_id''))"
  by (simp add: ToDoList_from_doc_def list_to_bson_def comprehension_stored ToDoList_init_def)

text \<open>
  C1. The specification has every item document written by \<^verbatim>\<open>create_item\<close>
  (\<^verbatim>\<open>id\<close>, \<^verbatim>\<open>label\<close>, \<^verbatim>\<open>is_checked\<close>) decode with \<^verbatim>\<open>ToDoListItem.from_doc\<close> into an
  item of the same id, label and checked flag. In the module the decoder raises
  \<^verbatim>\<open>KeyError('_id')\<close> on every such document, whatever the token and the label.
\<close>

theorem created_item_does_not_decode:
  "ToDoListItem_from_doc R
     (item_to_bson \<lparr>d_id = uid, d_label = label, d_is_checked = False\<rparr>) =
   Inl (KeyError ''_id'')"
  by (simp add: ToDoListItem_from_doc_def item_to_bson_def)

subsection \<open>Decoding arbitrary documents\<close>

lemma comprehension_Inr:
  "comprehension f xs = Inr ys \<Longrightarrow> map f xs = map Inr ys"
proof (induction xs arbitrary: ys)
  case Nil
  then show ?case by simp
next
  case (Cons x xs)
  then show ?case by (auto split: sum.splits)
qed

lemma subscript_Inr: "subscript v k = Inr x \<Longrightarrow> \<exists>kvs. v = BDoc kvs \<and> map_of kvs k = Some x"
  by (cases v) (auto split: option.splits)

lemma subscript_not_doc: "(\<forall>kvs. v \<noteq> BDoc kvs) \<Longrightarrow> subscript v k = Inl TypeError"
  by (cases v) auto

lemma comprehension_fails:
  "list_ex (\<lambda>x. isl (f x)) xs \<Longrightarrow> isl (comprehension f xs)"
  by (induction xs) (auto split: sum.splits)

text \<open>
  C8. The specification has \<^verbatim>\<open>ToDoList.from_doc\<close> fail with a \<^verbatim>\<open>MalformedDocument\<close>
  error, raised by explicit field checks, on every document with a missing or mistyped
  field. The module has no such error and no field check: the decoder subscripts and
  iterates the document and fails where Python does. A document whose \<^verbatim>\<open>items\<close> field
  is the empty string, not a sequence of items, is decoded, to a list without items.
\<close>

theorem from_doc_accepts_mistyped_items_counterexample:
  "ToDoList_from_doc no_lax
     (BDoc [(''_id'', BOid list_oid), (''name'', BStr ''Groceries''), (''items'', BStr '''')]) =
   Inr \<lparr>tl_id = list_id, tl_name = ''Groceries'', tl_items = []\<rparr>"
  by (simp add: ToDoList_from_doc_def ToDoList_init_def list_oid_def list_id_def
      hexlify_def hexdigit_def)

text \<open>
  C8, as the module has it. The decoder makes no field check of its own; it fails where
  subscripting, iteration, the item decoder or validation fail. A document without
  \<^verbatim>\<open>_id\<close>, \<^verbatim>\<open>name\<close> or \<^verbatim>\<open>items\<close> raises \<^verbatim>\<open>KeyError\<close> for the first of these keys
  that is missing; a value that is not a dict raises \<^verbatim>\<open>TypeError\<close>; an \<^verbatim>\<open>items\<close> field
  that cannot be iterated raises the error of the iteration; an element that the item
  decoder rejects makes the whole call raise. No result is partial: when a list is
  returned, the document held all three keys, its name passed validation, and every
  element that iterating \<^verbatim>\<open>items\<close> yields was decoded by the item decoder, in order, into
  the items of the list. And a mistyped field is not rejected as such: whenever iterating
  \<^verbatim>\<open>items\<close> yields nothing (the empty string, an empty dict) and the name is valid, the
  document decodes to a list without items.
\<close>

theorem ToDoList_from_doc_raises_or_decodes_all:
  "(doc = BDoc kvs \<and> map_of kvs ''_id'' = None \<longrightarrow>
      ToDoList_from_doc R doc = Inl (KeyError ''_id'')) \<and>
   (doc = BDoc kvs \<and> map_of kvs ''_id'' \<noteq> None \<and> map_of kvs ''name'' = None \<longrightarrow>
      ToDoList_from_doc R doc = Inl (KeyError ''name'')) \<and>
   (doc = BDoc kvs \<and> map_of kvs ''_id'' \<noteq> None \<and> map_of kvs ''name'' \<noteq> None \<and>
    map_of kvs ''items'' = None \<longrightarrow>
      ToDoList_from_doc R doc = Inl (KeyError ''items'')) \<and>
   ((\<forall>kvs. doc \<noteq> BDoc kvs) \<longrightarrow> ToDoList_from_doc R doc = Inl TypeError) \<and>
   (doc = BDoc kvs \<and> map_of kvs ''_id'' = Some i \<and> map_of kvs ''name'' = Some n \<and>
    map_of kvs ''items'' = Some v \<and> py_iter v = Inl e \<longrightarrow>
      ToDoList_from_doc R doc = Inl e) \<and>
   (doc = BDoc kvs \<and> map_of kvs ''_id'' = Some i \<and> map_of kvs ''name'' = Some n \<and>
    map_of kvs ''items'' = Some v \<and> py_iter v = Inr xs \<and>
    list_ex (\<lambda>x. isl (ToDoListItem_from_doc R x)) xs \<longrightarrow>
      isl (ToDoList_from_doc R doc)) \<and>
   (ToDoList_from_doc R doc = Inr l \<longrightarrow>
      (\<exists>kvs i n v xs.
         doc = BDoc kvs \<and> map_of kvs ''_id'' = Some i \<and> map_of kvs ''name'' = Some n \<and>
         map_of kvs ''items'' = Some v \<and> py_iter v = Inr xs \<and>
         tl_id l = py_str R i \<and> validate_str R n = Some (tl_name l) \<and>
         map (ToDoListItem_from_doc R) xs = map Inr (tl_items l))) \<and>
   (doc = BDoc kvs \<and> map_of kvs ''_id'' = Some i \<and> map_of kvs ''name'' = Some n \<and>
    map_of kvs ''items'' = Some v \<and> py_iter v = Inr [] \<and> validate_str R n = Some n' \<longrightarrow>
      ToDoList_from_doc R doc = Inr \<lparr>tl_id = py_str R i, tl_name = n', tl_items = []\<rparr>)"
proof -
  have 1: "doc = BDoc kvs \<and> map_of kvs ''_id'' = None \<longrightarrow>
      ToDoList_from_doc R doc = Inl (KeyError ''_id'')"
    by (simp add: ToDoList_from_doc_def)
  have 2: "doc = BDoc kvs \<and> map_of kvs ''_id'' \<noteq> None \<and> map_of kvs ''name'' = None \<longrightarrow>
      ToDoList_from_doc R doc = Inl (KeyError ''name'')"
    by (auto simp: ToDoList_from_doc_def)
  have 3: "doc = BDoc kvs \<and> map_of kvs ''_id'' \<noteq> None \<and> map_of kvs ''name'' \<noteq> None \<and>
      map_of kvs ''items'' = None \<longrightarrow> ToDoList_from_doc R doc = Inl (KeyError ''items'')"
    by (auto simp: ToDoList_from_doc_def)
  have 4: "(\<forall>kvs. doc \<noteq> BDoc kvs) \<longrightarrow> ToDoList_from_doc R doc = Inl TypeError"
    by (simp add: ToDoList_from_doc_def subscript_not_doc)
  have 5: "doc = BDoc kvs \<and> map_of kvs ''_id'' = Some i \<and> map_of kvs ''name'' = Some n \<and>
      map_of kvs ''items'' = Some v \<and> py_iter v = Inl e \<longrightarrow> ToDoList_from_doc R doc = Inl e"
    by (simp add: ToDoList_from_doc_def)
  have 6: "isl (ToDoList_from_doc R doc)"
    if a: "doc = BDoc kvs \<and> map_of kvs ''_id'' = Some i \<and> map_of kvs ''name'' = Some n \<and>
      map_of kvs ''items'' = Some v \<and> py_iter v = Inr xs \<and>
      list_ex (\<lambda>x. isl (ToDoListItem_from_doc R x)) xs"
  proof -
    from a have "isl (comprehension (ToDoListItem_from_doc R) xs)"
      by (simp add: comprehension_fails)
    then obtain e' where "comprehension (ToDoListItem_from_doc R) xs = Inl e'"
      by (cases "comprehension (ToDoListItem_from_doc R) xs") auto
    with a show ?thesis by (simp add: ToDoList_from_doc_def)
  qed
  have 7: "\<exists>kvs i n v xs.
         doc = BDoc kvs \<and> map_of kvs ''_id'' = Some i \<and> map_of kvs ''name'' = Some n \<and>
         map_of kvs ''items'' = Some v \<and> py_iter v = Inr xs \<and>
         tl_id l = py_str R i \<and> validate_str R n = Some (tl_name l) \<and>
         map (ToDoListItem_from_doc R) xs = map Inr (tl_items l)"
    if a: "ToDoList_from_doc R doc = Inr l"
  proof -
    from a obtain i where i: "subscript doc ''_id'' = Inr i"
      by (auto simp: ToDoList_from_doc_def split: sum.splits)
    from a i obtain n where n: "subscript doc ''name'' = Inr n"
      by (auto simp: ToDoList_from_doc_def split: sum.splits)
    from a i n obtain v where v: "subscript doc ''items'' = Inr v"
      by (auto simp: ToDoList_from_doc_def split: sum.splits)
    from a i n v obtain xs where xs: "py_iter v = Inr xs"
      by (auto simp: ToDoList_from_doc_def split: sum.splits)
    from a i n v xs obtain its where
      its: "comprehension (ToDoListItem_from_doc R) xs = Inr its"
      by (auto simp: ToDoList_from_doc_def split: sum.splits)
    from a i n v xs its have t: "ToDoList_init R (py_str R i) n its = Inr l"
      by (simp add: ToDoList_from_doc_def)
    then have l: "tl_id l = py_str R i" "validate_str R n = Some (tl_name l)" "tl_items l = its"
      by (auto simp: ToDoList_init_def split: option.splits)
    from subscript_Inr [OF i] obtain kvs where
      k: "doc = BDoc kvs" "map_of kvs ''_id'' = Some i"
      by blast
    from n v k(1) have k': "map_of kvs ''name'' = Some n" "map_of kvs ''items'' = Some v"
      by (auto split: option.splits)
    from comprehension_Inr [OF its] l(3)
    have "map (ToDoListItem_from_doc R) xs = map Inr (tl_items l)" by simp
    with k k' xs l(1,2) show ?thesis by blast
  qed
  have 8: "doc = BDoc kvs \<and> map_of kvs ''_id'' = Some i \<and> map_of kvs ''name'' = Some n \<and>
      map_of kvs ''items'' = Some v \<and> py_iter v = Inr [] \<and> validate_str R n = Some n' \<longrightarrow>
      ToDoList_from_doc R doc = Inr \<lparr>tl_id = py_str R i, tl_name = n', tl_items = []\<rparr>"
    by (simp add: ToDoList_from_doc_def ToDoList_init_def)
  from 1 2 3 4 5 6 7 8 show ?thesis by blast
qed

theorem ToDoList_from_doc_raises_or_decodes_all_witness:
  "ToDoList_from_doc no_lax (BDoc [(''name'', BStr ''Groceries''), (''items'', BArr [])]) =
     Inl (KeyError ''_id'') \<and>
   ToDoList_from_doc no_lax (BDoc [(''_id'', BOid list_oid), (''items'', BArr [])]) =
     Inl (KeyError ''name'') \<and>
   ToDoList_from_doc no_lax (BDoc [(''_id'', BOid list_oid), (''name'', BStr ''Groceries'')]) =
     Inl (KeyError ''items'') \<and>
   ToDoList_from_doc no_lax BNull = Inl TypeError \<and>
   ToDoList_from_doc no_lax
     (BDoc [(''_id'', BOid list_oid), (''name'', BStr ''Groceries''), (''items'', BInt 3)]) =
     Inl TypeError \<and>
   isl (ToDoList_from_doc no_lax
     (BDoc [(''_id'', BOid list_oid), (''name'', BStr ''Groceries''),
            (''items'', BArr [BNull])])) \<and>
   ToDoList_from_doc no_lax
     (BDoc [(''_id'', BOid list_oid), (''name'', BStr ''Groceries''),
            (''items'', BArr [BDoc [(''_id'', BStr ''u1''), (''label'', BStr ''Milk''),
                                    (''is_checked'', BBool True)]])]) =
     Inr \<lparr>tl_id = list_id, tl_name = ''Groceries'',
          tl_items = [\<lparr>it_id = ''u1'', it_label = ''Milk'', it_is_checked = True\<rparr>]\<rparr> \<and>
   (\<exists>kvs i n v xs.
      BDoc [(''_id'', BOid list_oid), (''name'', BStr ''Groceries''),
            (''items'', BArr [BDoc [(''_id'', BStr ''u1''), (''label'', BStr ''Milk''),
                                    (''is_checked'', BBool True)]])] = BDoc kvs \<and>
      map_of kvs ''_id'' = Some i \<and> map_of kvs ''name'' = Some n \<and>
      map_of kvs ''items'' = Some v \<and> py_iter v = Inr xs \<and>
      tl_id \<lparr>tl_id = list_id, tl_name = ''Groceries'',
             tl_items = [\<lparr>it_id = ''u1'', it_label = ''Milk'', it_is_checked = True\<rparr>]\<rparr> =
        py_str no_lax i \<and>
      validate_str no_lax n =
        Some (tl_name \<lparr>tl_id = list_id, tl_name = ''Groceries'',
                tl_items = [\<lparr>it_id = ''u1'', it_label = ''Milk'', it_is_checked = True\<rparr>]\<rparr>) \<and>
      map (ToDoListItem_from_doc no_lax) xs =
        map Inr (tl_items \<lparr>tl_id = list_id, tl_name = ''Groceries'',
                   tl_items = [\<lparr>it_id = ''u1'', it_label = ''Milk'',
                                 it_is_checked = True\<rparr>]\<rparr>)) \<and>
   ToDoList_from_doc no_lax
     (BDoc [(''_id'', BOid list_oid), (''name'', BStr ''Groceries''), (''items'', BStr [])]) =
     Inr \<lparr>tl_id = list_id, tl_name = ''Groceries'', tl_items = []\<rparr> \<and>
   ToDoList_from_doc no_lax
     (BDoc [(''_id'', BOid list_oid), (''name'', BStr ''Groceries''), (''items'', BDoc [])]) =
     Inr \<lparr>tl_id = list_id, tl_name = ''Groceries'', tl_items = []\<rparr>"
proof -
  let ?i = "BOid list_oid"
  let ?n = "BStr ''Groceries''"
  let ?d1 = "[(''name'', ?n), (''items'', BArr [])]"
  let ?d2 = "[(''_id'', ?i), (''items'', BArr [])]"
  let ?d3 = "[(''_id'', ?i), (''name'', ?n)]"
  let ?d5 = "[(''_id'', ?i), (''name'', ?n), (''items'', BInt 3)]"
  let ?d6 = "[(''_id'', ?i), (''name'', ?n), (''items'', BArr [BNull])]"
  let ?x = "BDoc [(''_id'', BStr ''u1''), (''label'', BStr ''Milk''), (''is_checked'', BBool True)]"
  let ?d7 = "[(''_id'', ?i), (''name'', ?n), (''items'', BArr [?x])]"
  let ?d8 = "[(''_id'', ?i), (''name'', ?n), (''items'', BStr [])]"
  let ?d9 = "[(''_id'', ?i), (''name'', ?n), (''items'', BDoc [])]"
  let ?l0 = "\<lparr>tl_id = list_id, tl_name = ''Groceries'', tl_items = []\<rparr>"
  let ?l1 = "\<lparr>tl_id = list_id, tl_name = ''Groceries'',
               tl_items = [\<lparr>it_id = ''u1'', it_label = ''Milk'', it_is_checked = True\<rparr>]\<rparr>"
  note T = ToDoList_from_doc_raises_or_decodes_all
  have s: "py_str no_lax ?i = list_id"
    by (simp add: list_oid_def list_id_def hexlify_def hexdigit_def)
  have x: "ToDoListItem_from_doc no_lax ?x =
      Inr \<lparr>it_id = ''u1'', it_label = ''Milk'', it_is_checked = True\<rparr>"
    by (simp add: ToDoListItem_from_doc_def ToDoListItem_init_def)
  have 7: "ToDoList_from_doc no_lax (BDoc ?d7) = Inr ?l1"
    using s x by (simp add: ToDoList_from_doc_def ToDoList_init_def)
  have n: "isl (ToDoListItem_from_doc no_lax BNull)"
    by (simp add: ToDoListItem_from_doc_def)
  have t1: "ToDoList_from_doc no_lax (BDoc ?d1) = Inl (KeyError ''_id'')"
    using T [of "BDoc ?d1" ?d1 no_lax, THEN conjunct1] by simp
  have t2: "ToDoList_from_doc no_lax (BDoc ?d2) = Inl (KeyError ''name'')"
    using T [of "BDoc ?d2" ?d2 no_lax, THEN conjunct2, THEN conjunct1] by simp
  have t3: "ToDoList_from_doc no_lax (BDoc ?d3) = Inl (KeyError ''items'')"
    using T [of "BDoc ?d3" ?d3 no_lax, THEN conjunct2, THEN conjunct2, THEN conjunct1]
    by simp
  have t4: "ToDoList_from_doc no_lax BNull = Inl TypeError"
    using T [of BNull _ no_lax, THEN conjunct2, THEN conjunct2, THEN conjunct2,
        THEN conjunct1]
    by simp
  have t5: "ToDoList_from_doc no_lax (BDoc ?d5) = Inl TypeError"
    using T [of "BDoc ?d5" ?d5 no_lax ?i ?n "BInt 3" TypeError, THEN conjunct2,
        THEN conjunct2, THEN conjunct2, THEN conjunct2, THEN conjunct1]
    by simp
  have t6: "isl (ToDoList_from_doc no_lax (BDoc ?d6))"
    using n T [of "BDoc ?d6" ?d6 no_lax ?i ?n "BArr [BNull]" _ "[BNull]", THEN conjunct2,
        THEN conjunct2, THEN conjunct2, THEN conjunct2, THEN conjunct2, THEN conjunct1]
    by simp
  note t7 = T [of "BDoc ?d7" _ no_lax _ _ _ _ _ ?l1, THEN conjunct2, THEN conjunct2,
      THEN conjunct2, THEN conjunct2, THEN conjunct2, THEN conjunct2, THEN conjunct1,
      THEN mp, OF 7]
  have t8: "ToDoList_from_doc no_lax (BDoc ?d8) = Inr ?l0"
    using s T [of "BDoc ?d8" ?d8 no_lax ?i ?n "BStr []" _ _ _ "''Groceries''",
        THEN conjunct2, THEN conjunct2, THEN conjunct2, THEN conjunct2, THEN conjunct2,
        THEN conjunct2, THEN conjunct2]
    by simp
  have t9: "ToDoList_from_doc no_lax (BDoc ?d9) = Inr ?l0"
    using s T [of "BDoc ?d9" ?d9 no_lax ?i ?n "BDoc []" _ _ _ "''Groceries''",
        THEN conjunct2, THEN conjunct2, THEN conjunct2, THEN conjunct2, THEN conjunct2,
        THEN conjunct2, THEN conjunct2]
    by simp
  show ?thesis
    by (intro conjI) (rule t1 t2 t3 t4 t5 t6 7 t7 t8 t9)+
qed

subsection \<open>The attribute the methods read\<close>

text \<open>
  The constructor stores the handle as \<^verbatim>\<open>_todo_collection\<close>. The name every method
  reads, \<^verbatim>\<open>todo_collection\<close>, is not an attribute of the instance it builds, so each
  method raises \<^verbatim>\<open>AttributeError\<close> at its first expression: before \<^verbatim>\<open>ObjectID(id)\<close>
  is built and before any request is sent.
\<close>

lemma getattr_stored: "getattr (ToDoDAL_init h) ''_todo_collection'' = Inr h"
  by (simp add: getattr_def ToDoDAL_init_def)

lemma getattr_read: "getattr (ToDoDAL_init h) ''todo_collection'' = Inl AttributeError"
  by (simp add: getattr_def ToDoDAL_init_def)

text \<open>
  C2. The specification has \<^verbatim>\<open>create_item\<close> on an existing list return the list after
  the update, one item longer, the new item carrying the label, unchecked, under a fresh
  identity. In the module the call raises \<^verbatim>\<open>AttributeError\<close> for every list, label and
  token; the collection is as before, with no request received: nothing is appended and
  no list is returned.
\<close>

theorem create_item_raises_AttributeError:
  "create_item R (ToDoDAL_init h) C a label uid = (Inl AttributeError, C)"
  by (simp add: create_item_def getattr_read)

text \<open>
  C3. The specification has \<^verbatim>\<open>get_todo_list\<close> fail with \<^verbatim>\<open>NotFound\<close> when no document
  has the identifier and with \<^verbatim>\<open>InvalidIdentifier\<close> when the identifier does not decode.
  In the module the call raises \<^verbatim>\<open>AttributeError\<close> for every identifier, stored or not,
  well-formed or not, and sends no request.
\<close>

theorem get_todo_list_raises_AttributeError:
  "get_todo_list R (ToDoDAL_init h) C a = (Inl AttributeError, C)"
  by (simp add: get_todo_list_def getattr_read)

text \<open>
  C4. The specification has \<^verbatim>\<open>delete_todo_list\<close> return true exactly when one document
  was removed, and false, not an error, for an identifier of no stored list. In the module
  the call returns no boolean: it raises \<^verbatim>\<open>AttributeError\<close> for every identifier, removes
  nothing and sends no request.
\<close>

theorem delete_todo_list_raises_AttributeError:
  "delete_todo_list (ToDoDAL_init h) C a = (Inl AttributeError, C)"
  by (simp add: delete_todo_list_def getattr_read)

text \<open>
  C5. The specification has \<^verbatim>\<open>set_checked_state\<close> return \<^verbatim>\<open>None\<close>, not an error, when
  the list or the item is missing, and the updated list when both match. In the module the
  call raises \<^verbatim>\<open>AttributeError\<close> in all three cases and sends no request.
\<close>

theorem set_checked_state_raises_AttributeError:
  "set_checked_state R (ToDoDAL_init h) C doc_id item_id is_checked = (Inl AttributeError, C)"
  by (simp add: set_checked_state_def getattr_read)

text \<open>
  C6. The specification has \<^verbatim>\<open>list_todo_lists\<close> yield one summary for each stored list,
  by ascending name, with the number of items of the list. In the module the generator
  yields nothing: its first step raises \<^verbatim>\<open>AttributeError\<close>, and no request is sent,
  whatever the collection holds.
\<close>

theorem list_todo_lists_raises_AttributeError:
  "list_todo_lists R (ToDoDAL_init h) C = (([], Some AttributeError), C)"
  by (simp add: list_todo_lists_def getattr_read)

text \<open>
  C7. The specification has a matching \<^verbatim>\<open>set_checked_state\<close> return a list that differs
  from the stored one only in the checked flag of the item addressed. In the module no
  list is returned (the call raises \<^verbatim>\<open>AttributeError\<close>) and the stored documents are
  what they were: the flag is not set.
\<close>

theorem set_checked_state_changes_nothing:
  "fst (set_checked_state R (ToDoDAL_init h) C doc_id item_id is_checked) = Inl AttributeError \<and>
   docs (snd (set_checked_state R (ToDoDAL_init h) C doc_id item_id is_checked)) = docs C"
  by (simp add: set_checked_state_def getattr_read)

text \<open>
  C9. The specification has every method that takes an identifier fail with
  \<^verbatim>\<open>InvalidIdentifier\<close> on a string that does not decode, before any request. In the
  module no request is sent, but the error is not \<^verbatim>\<open>InvalidId\<close>: the attribute is read
  before \<^verbatim>\<open>ObjectID(id)\<close> is built, and each of the five methods raises
  \<^verbatim>\<open>AttributeError\<close>. Shown at the string \<^verbatim>\<open>groceries\<close>, which \<^verbatim>\<open>ObjectID\<close> rejects.
\<close>

theorem bad_id_raises_AttributeError:
  "ObjectID (IdStr ''groceries'') = Inl InvalidId \<and>
   get_todo_list R (ToDoDAL_init h) C (IdStr ''groceries'') = (Inl AttributeError, C) \<and>
   delete_todo_list (ToDoDAL_init h) C (IdStr ''groceries'') = (Inl AttributeError, C) \<and>
   create_item R (ToDoDAL_init h) C (IdStr ''groceries'') label uid = (Inl AttributeError, C) \<and>
   set_checked_state R (ToDoDAL_init h) C (IdStr ''groceries'') item_id is_checked =
     (Inl AttributeError, C) \<and>
   delete_item R (ToDoDAL_init h) C (IdStr ''groceries'') item_id = (Inl AttributeError, C)"
  by (simp add: ObjectID_too_short get_todo_list_def delete_todo_list_def create_item_def
      set_checked_state_def delete_item_def getattr_read)

text \<open>
  C10. The specification has a matching \<^verbatim>\<open>delete_item\<close> return the list without any
  item of that identity, the other items kept in order. In the module the call raises
  \<^verbatim>\<open>AttributeError\<close>; no item is removed and no list is returned.
\<close>

theorem delete_item_raises_AttributeError:
  "delete_item R (ToDoDAL_init h) C doc_id item_id = (Inl AttributeError, C)"
  by (simp add: delete_item_def getattr_read)

subsection \<open>Past the attribute\<close>

text \<open>
  What the rest of each method does, on an instance that has the attribute the methods
  read. The constructor builds no such instance; \<open>patched\<close> is one.
\<close>

lemma getattr_patched: "getattr patched ''todo_collection'' = Inr MotorCollection"
  by (simp add: getattr_def patched_def)

text \<open>
  An identifier that does not decode raises \<^verbatim>\<open>InvalidId\<close> and no request is sent; one
  that decodes reaches the store in the two list methods and raises \<^verbatim>\<open>TypeError\<close> in
  the three item methods, which call a method the collection does not have.
\<close>

lemma past_attribute_bad_id:
  assumes "getattr self ''todo_collection'' = Inr h" and "ObjectID a = Inl e"
  shows "get_todo_list R self C a = (Inl InvalidId, C)"
    and "delete_todo_list self C a = (Inl InvalidId, C)"
    and "create_item R self C a label uid = (Inl InvalidId, C)"
    and "set_checked_state R self C a item_id b = (Inl InvalidId, C)"
    and "delete_item R self C a item_id = (Inl InvalidId, C)"
  using assms ObjectID_error [OF assms(2)]
  by (simp_all add: get_todo_list_def delete_todo_list_def create_item_def
      set_checked_state_def delete_item_def)

lemma past_attribute_item_methods:
  assumes "getattr self ''todo_collection'' = Inr h" and "ObjectID a = Inr oid"
  shows "create_item R self C a label uid = (Inl TypeError, C)"
    and "set_checked_state R self C a item_id b = (Inl TypeError, C)"
    and "delete_item R self C a item_id = (Inl TypeError, C)"
  using assms
  by (simp_all add: create_item_def set_checked_state_def delete_item_def
      find_one_and_update_one_def)

text \<open>
  \<^verbatim>\<open>get_todo_list\<close> hands what \<^verbatim>\<open>find_one\<close> returns to the decoder without a test, so
  an identifier of no stored list raises \<^verbatim>\<open>TypeError\<close> on \<^verbatim>\<open>None["_id"]\<close>.
\<close>

lemma past_attribute_get_absent:
  assumes "getattr self ''todo_collection'' = Inr h" and "ObjectID a = Inr oid"
    and "find (\<lambda>d. d__id d = oid) (docs C) = None"
  shows "get_todo_list R self C a =
           (Inl TypeError, C\<lparr>requests := requests C @ [FindOne oid]\<rparr>)"
  using assms
  by (simp add: get_todo_list_def find_one_def to_python_def ToDoList_from_doc_def)

text \<open>\<^verbatim>\<open>delete_todo_list\<close> returns whether the store removed a document.\<close>

lemma remove_first_miss: "\<not> list_ex p ds \<Longrightarrow> remove_first p ds = ds"
  by (induction ds) auto

lemma length_remove_first:
  "list_ex p ds \<Longrightarrow> Suc (length (remove_first p ds)) = length ds"
  by (induction ds) auto

lemma remove_first_distinct:
  "distinct (map f ds) \<Longrightarrow> \<not> list_ex (\<lambda>d. f d = k) (remove_first (\<lambda>d. f d = k) ds)"
proof (induction ds)
  case Nil
  then show ?case by simp
next
  case (Cons x ds)
  show ?case
  proof (cases "f x = k")
    case True
    with Cons.prems have "k \<notin> f ` set ds" by auto
    then have "\<not> list_ex (\<lambda>d. f d = k) ds" by (auto simp: list_ex_iff)
    with True show ?thesis by simp
  next
    case False
    with Cons show ?thesis by simp
  qed
qed

lemma past_attribute_delete:
  assumes "getattr self ''todo_collection'' = Inr h" and "ObjectID a = Inr oid"
  shows "fst (delete_todo_list self C a) = Inr (list_ex (\<lambda>d. d__id d = oid) (docs C))"
    and "list_ex (\<lambda>d. d__id d = oid) (docs C) \<Longrightarrow>
           Suc (length (docs (snd (delete_todo_list self C a)))) = length (docs C)"
    and "\<not> list_ex (\<lambda>d. d__id d = oid) (docs C) \<Longrightarrow>
           docs (snd (delete_todo_list self C a)) = docs C"
    and "unique_ids C \<Longrightarrow>
           fst (delete_todo_list self (snd (delete_todo_list self C a)) a) = Inr False"
  using assms remove_first_distinct [of d__id "docs C" oid]
  by (simp_all add: delete_todo_list_def delete_one_def length_remove_first
      remove_first_miss unique_ids_def)

text \<open>\<^verbatim>\<open>list_todo_lists\<close> yields the summaries of the stored lists by ascending name.\<close>

lemma summary_from_projected: "ListSummary_from_doc R (projected d) = Inr (summary_of d)"
  by (simp add: ListSummary_from_doc_def projected_def ListSummary_init_def summary_of_def)

lemma generate_projected:
  "generate (ListSummary_from_doc R) (map projected ds) = (map summary_of ds, None)"
  by (induction ds) (simp_all add: summary_from_projected)

lemma past_attribute_list:
  assumes "getattr self ''todo_collection'' = Inr h"
  shows "list_todo_lists R self C =
           ((map summary_of (sort_key d_name (docs C)), None),
            C\<lparr>requests := requests C @ [Find]\<rparr>)"
    and "sorted (map ls_name (map summary_of (sort_key d_name (docs C))))"
    and "mset (map summary_of (sort_key d_name (docs C))) =
           image_mset summary_of (mset (docs C))"
proof -
  show "list_todo_lists R self C =
           ((map summary_of (sort_key d_name (docs C)), None),
            C\<lparr>requests := requests C @ [Find]\<rparr>)"
    using assms by (simp add: list_todo_lists_def find_projected_def generate_projected)
  have "map ls_name (map summary_of (sort_key d_name (docs C))) =
      map d_name (sort_key d_name (docs C))"
    by (simp add: summary_of_def comp_def)
  then show "sorted (map ls_name (map summary_of (sort_key d_name (docs C))))"
    by (simp only: sorted_sort_key)
  show "mset (map summary_of (sort_key d_name (docs C))) =
           image_mset summary_of (mset (docs C))"
    by simp
qed

end
